theory Spec2Isabelle
  imports Main "HOL-Library.Sublist"
begin

text \<open>
  The program is one Express route, \<^verbatim>\<open>/getresult/:transactionId\<close>. It chooses a payment
  network from the prefix of the transaction identifier, fetches the receipt of that
  network (a PDF of CBE or an HTML page of Telebirr), extracts eight fields from it, logs
  the record and answers with it; any error on the way is answered with status 500. The
  theory follows the source file \<^verbatim>\<open>getresult.js\<close> from the string operations it relies
  on up to the route handler, and then proves the properties of the specification.
\<close>

section \<open>JavaScript strings\<close>

text \<open>
  A JavaScript string is a sequence of UTF-16 code units. A code unit is modelled by its
  numeric value (0 to 65535), a string by the list of its code units. The Amharic labels
  of the Telebirr receipt lie outside ASCII, and the regular expression class
  \<^verbatim>\<open>\s\<close> contains code units above 255, so a byte string would not do.
\<close>

type_synonym code_unit = nat
type_synonym jsstring = "code_unit list"

definition ascii :: "string \<Rightarrow> jsstring" where
  "ascii s = map of_char s"

text \<open>\<^verbatim>\<open>s.startsWith(p)\<close> and \<^verbatim>\<open>s.includes(p)\<close>.\<close>

definition startsWith :: "jsstring \<Rightarrow> jsstring \<Rightarrow> bool" where
  "startsWith s p = prefix p s"

definition str_includes :: "jsstring \<Rightarrow> jsstring \<Rightarrow> bool" where
  "str_includes s p = sublist p s"

text \<open>
  The character classes of ECMAScript: LineTerminator (LF, CR, LS, PS), WhiteSpace (TAB, VT,
  FF, SP, NBSP, ZWNBSP and the category Zs), \<^verbatim>\<open>\s\<close> (both together),
  \<^verbatim>\<open>\d\<close> and \<^verbatim>\<open>.\<close> (everything but a line terminator, as no
  \<^verbatim>\<open>s\<close> flag is given).
\<close>

definition is_line_terminator :: "code_unit \<Rightarrow> bool" where
  "is_line_terminator c = (c = 10 \<or> c = 13 \<or> c = 8232 \<or> c = 8233)"

definition is_white_space :: "code_unit \<Rightarrow> bool" where
  "is_white_space c =
     (c = 9 \<or> c = 11 \<or> c = 12 \<or> c = 32 \<or> c = 160 \<or> c = 5760 \<or>
      (8192 \<le> c \<and> c \<le> 8202) \<or> c = 8239 \<or> c = 8287 \<or> c = 12288 \<or> c = 65279)"

definition class_s :: "code_unit \<Rightarrow> bool" where
  "class_s c = (is_white_space c \<or> is_line_terminator c)"

definition class_d :: "code_unit \<Rightarrow> bool" where
  "class_d c = (48 \<le> c \<and> c \<le> 57)"

definition class_dot :: "code_unit \<Rightarrow> bool" where
  "class_dot c = (\<not> is_line_terminator c)"

text \<open>
  \<^verbatim>\<open>s.trim()\<close> removes white space and line terminators from both ends.
\<close>

definition trim :: "jsstring \<Rightarrow> jsstring" where
  "trim s = rev (dropWhile class_s (rev (dropWhile class_s s)))"

section \<open>The CBE receipt: text normalisation and anchor-pair extraction\<close>

subsection \<open>Whitespace normalisation (parseFT, line 50)\<close>

text \<open>
  \<^verbatim>\<open>.replace(/\r?\n/g, ' ')\<close>: scanning from the left, a line feed, or a carriage
  return directly followed by a line feed, becomes one space; every other code unit is
  copied.
\<close>

fun replace_newlines :: "jsstring \<Rightarrow> jsstring" where
  "replace_newlines [] = []"
| "replace_newlines [c] = (if c = 10 then [32] else [c])"
| "replace_newlines (c # d # cs) =
     (if c = 10 then 32 # replace_newlines (d # cs)
      else if c = 13 \<and> d = 10 then 32 # replace_newlines cs
      else c # replace_newlines (d # cs))"

text \<open>
  \<^verbatim>\<open>.replace(/\s\s+/g, ' ')\<close>: the pattern needs two whitespace code units to match
  and then, being greedy, takes the whole run; the run becomes one space and the scan goes
  on behind it. A whitespace code unit with no whitespace neighbour is not matched and is
  copied.
\<close>

function collapse_runs :: "jsstring \<Rightarrow> jsstring" where
  "collapse_runs [] = []"
| "collapse_runs [c] = [c]"
| "collapse_runs (c # d # cs) =
     (if class_s c \<and> class_s d then 32 # collapse_runs (dropWhile class_s cs)
      else c # collapse_runs (d # cs))"
  by pat_completeness auto
termination
  by (relation "measure length") (auto intro: le_imp_less_Suc length_dropWhile_le le_SucI)

definition normalize_text :: "jsstring \<Rightarrow> jsstring" where
  "normalize_text pdf_text = collapse_runs (replace_newlines pdf_text)"

subsection \<open>The regular expression of extract (parseFT, lines 52 to 56)\<close>

text \<open>
  \<^verbatim>\<open>extract\<close> builds \<^verbatim>\<open>new RegExp(`${label}\\s*(.*?)\\s*${after}`, 'i')\<close>. The labels
  and anchors of the source use four kinds of pattern item: a pattern character (compared
  after canonicalisation, as the flag \<^verbatim>\<open>i\<close> asks), \<^verbatim>\<open>\d\<close>, the greedy
  \<^verbatim>\<open>\s*\<close> and the lazy capturing group \<^verbatim>\<open>(.*?)\<close>.
\<close>

datatype regex_item = Chr code_unit | ClassD | StarS | LazyDotGroup

text \<open>
  Canonicalize of a regular expression without the flag \<^verbatim>\<open>u\<close> maps a code unit to its
  upper case, and never maps a code unit of 128 or more to one below 128. Every pattern
  character of the source is ASCII, so only the ASCII part of the mapping can make a
  comparison succeed.
\<close>

definition canonicalize :: "code_unit \<Rightarrow> code_unit" where
  "canonicalize c = (if 97 \<le> c \<and> c \<le> 122 then c - 32 else c)"

text \<open>
  The backtracking matcher, anchored at the start of the input: \<open>match_here items s cap\<close>
  matches \<open>items\<close> against a prefix of \<open>s\<close> and returns the text captured by the group,
  \<open>cap\<close> being what the group has taken so far. The greedy star first tries one more
  iteration and falls back to the continuation; the lazy star first tries the continuation
  and falls back to one more iteration.
\<close>

fun match_here :: "regex_item list \<Rightarrow> jsstring \<Rightarrow> jsstring \<Rightarrow> jsstring option" where
  "match_here [] s cap = Some cap"
| "match_here (Chr p # items) [] cap = None"
| "match_here (Chr p # items) (c # cs) cap =
     (if canonicalize c = canonicalize p then match_here items cs cap else None)"
| "match_here (ClassD # items) [] cap = None"
| "match_here (ClassD # items) (c # cs) cap =
     (if class_d c then match_here items cs cap else None)"
| "match_here (StarS # items) [] cap = match_here items [] cap"
| "match_here (StarS # items) (c # cs) cap =
     (if class_s c
      then (case match_here (StarS # items) cs cap of
              Some r \<Rightarrow> Some r
            | None \<Rightarrow> match_here items (c # cs) cap)
      else match_here items (c # cs) cap)"
| "match_here (LazyDotGroup # items) [] cap = match_here items [] cap"
| "match_here (LazyDotGroup # items) (c # cs) cap =
     (case match_here items (c # cs) cap of
        Some r \<Rightarrow> Some r
      | None \<Rightarrow>
          if class_dot c then match_here (LazyDotGroup # items) cs (cap @ [c]) else None)"

text \<open>
  \<^verbatim>\<open>text.match(pattern)\<close> for a pattern without the flag \<^verbatim>\<open>g\<close>: the match is
  tried at index 0, 1, ... up to the length of the text, and the first index where it
  succeeds gives the result; \<open>None\<close> is JavaScript's \<^verbatim>\<open>null\<close>. Only group 1 of the
  match is used by the source.
\<close>

fun regex_exec :: "regex_item list \<Rightarrow> jsstring \<Rightarrow> jsstring option" where
  "regex_exec items [] = match_here items [] []"
| "regex_exec items (c # cs) =
     (case match_here items (c # cs) [] of
        Some r \<Rightarrow> Some r
      | None \<Rightarrow> regex_exec items cs)"

text \<open>A label or anchor made of pattern characters only.\<close>

definition lit :: "string \<Rightarrow> regex_item list" where
  "lit s = map (\<lambda>c. Chr (of_char c)) s"

text \<open>
  \<^verbatim>\<open>extract(label, after)\<close> of the source, with the text it closes over as first
  argument (\<^verbatim>\<open>extract\<close> is a reserved word of Isabelle).
\<close>

definition extract_field ::
  "jsstring \<Rightarrow> regex_item list \<Rightarrow> regex_item list \<Rightarrow> jsstring option" where
  "extract_field txt label after =
     map_option trim (regex_exec (label @ [StarS, LazyDotGroup, StarS] @ after) txt)"

subsection \<open>The record (parseFT, lines 58 to 81)\<close>

datatype source_network = CBE | Telebirr

text \<open>A field value: a string or \<^verbatim>\<open>null\<close>.\<close>

datatype jsvalue = Null | Str jsstring

fun nullable :: "jsstring option \<Rightarrow> jsvalue" where
  "nullable None = Null"
| "nullable (Some s) = Str s"

text \<open>
  \<^verbatim>\<open>x || d\<close> for \<open>x\<close> a string or \<^verbatim>\<open>null\<close>: \<^verbatim>\<open>null\<close> and the empty string are
  falsy.
\<close>

fun or_default :: "jsstring option \<Rightarrow> jsstring \<Rightarrow> jsstring" where
  "or_default None d = d"
| "or_default (Some s) d = (if s = [] then d else s)"

text \<open>
  The object literal \<^verbatim>\<open>data\<close> is an association list in the order of the source; the
  keys are the property names.
\<close>

record payment_record =
  source :: source_network
  transactionId :: jsstring
  link :: jsstring
  data :: "(string \<times> jsvalue) list"

definition label_masked_account :: "regex_item list" where
  "label_masked_account = lit ''Account 1****'' @ [ClassD, ClassD, ClassD, ClassD]"

definition parseFT_data :: "jsstring \<Rightarrow> (string \<times> jsvalue) list" where
  "parseFT_data txt =
     (let payer = extract_field txt (lit ''Payer'') (lit ''Account'');
          payerAccount = extract_field txt (lit ''Account'') (lit ''Receiver'');
          receiver = extract_field txt (lit ''Receiver'') (lit ''Account'');
          receiverAccount =
            or_default (extract_field txt label_masked_account (lit ''Payment Date & Time''))
              (ascii ''1000009338067'');
          dateTime = extract_field txt (lit ''Payment Date & Time'') (lit ''Reference No'');
          reference = extract_field txt (lit ''Reference No. (VAT Invoice No)'') (lit ''Reason'');
          reason = extract_field txt (lit ''Reason / Type of service'') (lit ''Transferred Amount'');
          totalAmount =
            extract_field txt (lit ''Total amount debited from customers account'')
              (lit ''Amount in Word'')
      in [(''payer'', nullable payer),
          (''payerAccount'', Str (or_default payerAccount (ascii ''Unknown''))),
          (''receiver'', nullable receiver),
          (''receiverAccount'', Str receiverAccount),
          (''paymentDateTime'', nullable dateTime),
          (''referenceNo'', nullable reference),
          (''reason'', nullable reason),
          (''totalAmount'',
             Str (case totalAmount of
                    None \<Rightarrow> ascii ''Unknown''
                  | Some t \<Rightarrow> if t = [] then ascii ''Unknown'' else t @ ascii '' ETB''))])"

subsection \<open>Fetching and decoding (parseFT, lines 45 to 49)\<close>

text \<open>
  Every value thrown in the source is used through its \<^verbatim>\<open>message\<close> only.
\<close>

datatype js_error = Error (message: jsstring)

text \<open>
  The libraries are the environment of a lookup: \<^verbatim>\<open>axios.get\<close> (with the response
  type \<^verbatim>\<open>arraybuffer\<close> for CBE, as text for Telebirr), \<^verbatim>\<open>pdfParse\<close> (of which only
  the field \<^verbatim>\<open>text\<close> of the result is used), \<^verbatim>\<open>cheerio.load\<close> and \<^verbatim>\<open>Date.now()\<close>.
  Each either throws or returns. The document tree that \<^verbatim>\<open>cheerio.load\<close> returns is
  given below.
\<close>

datatype dom_node = Tag jsstring "jsstring list" "dom_node list" | TextNode jsstring

record environment =
  axios_get_arraybuffer :: "jsstring \<Rightarrow> js_error + nat list"
  axios_get :: "jsstring \<Rightarrow> js_error + jsstring"
  pdfParse :: "nat list \<Rightarrow> js_error + jsstring"
  cheerio_load :: "jsstring \<Rightarrow> js_error + dom_node list"
  date_now :: nat

definition parseFT :: "environment \<Rightarrow> jsstring \<Rightarrow> jsstring \<Rightarrow> js_error + payment_record" where
  "parseFT env lnk tid =
     (case axios_get_arraybuffer env lnk of
        Inl e \<Rightarrow> Inl e
      | Inr pdfResponse \<Rightarrow>
          (case pdfParse env pdfResponse of
             Inl e \<Rightarrow> Inl e
           | Inr pdfText \<Rightarrow>
               Inr \<lparr>source = CBE, transactionId = tid, link = lnk,
                    data = parseFT_data (normalize_text pdfText)\<rparr>))"

section \<open>The Telebirr receipt: lookups in the document tree\<close>

subsection \<open>The document tree and the selections of cheerio\<close>

text \<open>
  The tree that \<^verbatim>\<open>cheerio.load\<close> returns is the list of the children of the document
  node. An element carries its tag name (in lower case, as the HTML parser leaves it), the
  tokens of its \<^verbatim>\<open>class\<close> attribute and its children. Comments and other nodes that
  are neither elements nor text take no part in any lookup of the source (they have no
  text content and are skipped by \<^verbatim>\<open>next\<close>), so the model leaves them out.

  An element of a selection is a location in the tree: the element itself, the siblings
  that follow it, and the location of its parent element (\<open>None\<close> when the parent is the
  document). The limits of the runtime (the call stack on a very deep tree) are not part
  of the model.
\<close>

datatype loc = Loc (cur: dom_node) (rights: "dom_node list") (up: "loc option")

type_synonym selection = "loc list"

text \<open>
  The text content of a node, which \<^verbatim>\<open>.text()\<close> reads: the texts below it,
  concatenated.
\<close>

fun textContent :: "dom_node \<Rightarrow> jsstring" where
  "textContent (TextNode d) = d"
| "textContent (Tag name classes children) = concat (map textContent children)"

fun children_of :: "dom_node \<Rightarrow> dom_node list" where
  "children_of (TextNode d) = []"
| "children_of (Tag name classes children) = children"

text \<open>All elements below a list of sibling nodes, in document order.\<close>

fun locations :: "loc option \<Rightarrow> dom_node list \<Rightarrow> loc list" where
  "locations parent [] = []"
| "locations parent (TextNode d # rest) = locations parent rest"
| "locations parent (Tag name classes children # rest) =
     (let here = Loc (Tag name classes children) rest parent
      in here # locations (Some here) children @ locations parent rest)"

text \<open>The simple selectors of the source: \<^verbatim>\<open>td\<close>, \<^verbatim>\<open>td:contains("...")\<close>, \<^verbatim>\<open>td.cls\<close>.\<close>

fun is_td :: "dom_node \<Rightarrow> bool" where
  "is_td (TextNode d) = False"
| "is_td (Tag name classes children) = (name = ascii ''td'')"

text \<open>
  The pseudo-class \<^verbatim>\<open>:contains\<close> does not read the text content: the selector engine
  tests \<^verbatim>\<open>getText(elem).includes(text)\<close>, and \<^verbatim>\<open>getText\<close> yields a line feed for
  an element \<^verbatim>\<open>br\<close> and otherwise the texts of the children, concatenated.
\<close>

fun getText :: "dom_node \<Rightarrow> jsstring" where
  "getText (TextNode d) = d"
| "getText (Tag name classes children) =
     (if name = ascii ''br'' then [10] else concat (map getText children))"

definition td_contains :: "jsstring \<Rightarrow> dom_node \<Rightarrow> bool" where
  "td_contains label n = (is_td n \<and> str_includes (getText n) label)"

fun td_class :: "jsstring \<Rightarrow> dom_node \<Rightarrow> bool" where
  "td_class cls (TextNode d) = False"
| "td_class cls (Tag name classes children) = (name = ascii ''td'' \<and> cls \<in> set classes)"

text \<open>\<^verbatim>\<open>$(selector)\<close>: the elements of the document that match, in document order.\<close>

definition select_all :: "dom_node list \<Rightarrow> (dom_node \<Rightarrow> bool) \<Rightarrow> selection" where
  "select_all doc matches = filter (\<lambda>l. matches (cur l)) (locations None doc)"

text \<open>\<^verbatim>\<open>.next()\<close>: for each element its next sibling that is an element, if any.\<close>

fun next_element :: "dom_node list \<Rightarrow> loc option \<Rightarrow> loc option" where
  "next_element [] parent = None"
| "next_element (TextNode d # rest) parent = next_element rest parent"
| "next_element (Tag name classes children # rest) parent =
     Some (Loc (Tag name classes children) rest parent)"

definition sel_next :: "selection \<Rightarrow> selection" where
  "sel_next sel = List.map_filter (\<lambda>l. next_element (rights l) (up l)) sel"

text \<open>
  \<^verbatim>\<open>.parent()\<close>, \<^verbatim>\<open>.first()\<close>, \<^verbatim>\<open>.eq(i)\<close> and \<^verbatim>\<open>.find(selector)\<close>. The source
  applies \<^verbatim>\<open>parent\<close> and \<^verbatim>\<open>find\<close> to selections of at most one element, where no
  duplicate can arise.
\<close>

definition sel_parent :: "selection \<Rightarrow> selection" where
  "sel_parent sel = List.map_filter up sel"

definition sel_first :: "selection \<Rightarrow> selection" where
  "sel_first sel = take 1 sel"

definition sel_eq :: "nat \<Rightarrow> selection \<Rightarrow> selection" where
  "sel_eq i sel = take 1 (drop i sel)"

definition sel_find :: "(dom_node \<Rightarrow> bool) \<Rightarrow> selection \<Rightarrow> selection" where
  "sel_find matches sel =
     concat (map (\<lambda>l. filter (\<lambda>d. matches (cur d)) (locations (Some l) (children_of (cur l)))) sel)"

text \<open>\<^verbatim>\<open>.text()\<close>: the text contents of the elements of the selection, concatenated.\<close>

definition sel_text :: "selection \<Rightarrow> jsstring" where
  "sel_text sel = concat (map (\<lambda>l. textContent (cur l)) sel)"

subsection \<open>parseTelebirr (lines 85 to 122)\<close>

definition sentinel :: jsstring where
  "sentinel = ascii ''This request is not correct''"

text \<open>The bilingual labels, the Amharic part by its code units.\<close>

definition label_payer_name :: jsstring where
  "label_payer_name = [4840, 4776, 4939, 4845, 32, 4661, 4637] @ ascii ''/Payer Name''"

definition label_payer_telebirr_no :: jsstring where
  "label_payer_telebirr_no =
     [4840, 4776, 4939, 4845, 32, 4724, 4620, 4709, 4653, 32, 4673] @ ascii ''./Payer telebirr no.''"

definition label_credited_party_name :: jsstring where
  "label_credited_party_name =
     [4840, 4872, 4757, 4824, 4709, 32, 4720, 4672, 4707, 4845, 32, 4661, 4637]
       @ ascii ''/Credited Party name''"

definition label_payment_reason :: jsstring where
  "label_payment_reason =
     [4840, 4781, 4941, 4843, 32, 4637, 4781, 4757, 4843, 4725] @ ascii ''/Payment Reason''"

definition label_bank_account_number :: jsstring where
  "label_bank_account_number =
     [4840, 4707, 4757, 4781, 32, 4768, 4779, 4813, 4757, 4725, 32, 4673, 4901, 4653]
       @ ascii ''/Bank account number''"

definition label_total_paid_amount :: jsstring where
  "label_total_paid_amount =
     [4896, 4677, 4619, 4619, 32, 4840, 4720, 4776, 4936, 4616] @ ascii ''/Total Paid Amount''"

text \<open>\<^verbatim>\<open>$('td:contains("label")').next().text().trim()\<close>.\<close>

definition cell_after :: "dom_node list \<Rightarrow> jsstring \<Rightarrow> jsstring" where
  "cell_after doc label = trim (sel_text (sel_next (select_all doc (td_contains label))))"

definition parseTelebirr_data :: "dom_node list \<Rightarrow> (string \<times> jsvalue) list" where
  "parseTelebirr_data doc =
     (let payerName = cell_after doc label_payer_name;
          payerTelebirrNumber = cell_after doc label_payer_telebirr_no;
          creditedPartyName = cell_after doc label_credited_party_name;
          paymentType = cell_after doc label_payment_reason;
          accountNumber = cell_after doc label_bank_account_number;
          receiptHeader = sel_first (select_all doc (td_class (ascii ''receipttableTd2'')));
          paymentDateHeader = sel_next receiptHeader;
          receiptNumber =
            trim (sel_text (sel_first (sel_find is_td (sel_next (sel_parent receiptHeader)))));
          paymentDate =
            trim (sel_text (sel_eq 1 (sel_find is_td (sel_next (sel_parent paymentDateHeader)))));
          totalAmountPaid = cell_after doc label_total_paid_amount
      in [(''paymentType'', Str paymentType),
          (''payerName'', Str payerName),
          (''payerTelebirrNumber'', Str payerTelebirrNumber),
          (''creditedPartyName'', Str creditedPartyName),
          (''bankAccountNumber'',
             Str (if accountNumber = [] then ascii ''Not available'' else accountNumber)),
          (''receiptNumber'', Str receiptNumber),
          (''paymentDate'', Str paymentDate),
          (''totalAmountPaid'', Str totalAmountPaid)])"

definition parseTelebirr ::
  "environment \<Rightarrow> jsstring \<Rightarrow> jsstring \<Rightarrow> js_error + payment_record" where
  "parseTelebirr env lnk tid =
     (case axios_get env lnk of
        Inl e \<Rightarrow> Inl e
      | Inr html \<Rightarrow>
          if str_includes html sentinel
          then Inl (Error (ascii ''Invalid Telebirr transaction ID''))
          else (case cheerio_load env html of
                  Inl e \<Rightarrow> Inl e
                | Inr doc \<Rightarrow>
                    Inr \<lparr>source = Telebirr, transactionId = tid, link = lnk,
                         data = parseTelebirr_data doc\<rparr>))"

section \<open>The route /getresult/:transactionId (lines 125 to 153)\<close>

text \<open>
  The part of the request that the handler reads; an absent header or address is
  \<open>None\<close>.
\<close>

record request =
  params_transactionId :: jsstring
  header_x_forwarded_for :: "jsstring option"
  socket_remoteAddress :: "jsstring option"
  header_user_agent :: "jsstring option"

text \<open>
  A row of the table \<^verbatim>\<open>logs\<close>. The column \<^verbatim>\<open>response\<close> holds the record itself
  rather than its JSON text, and the time stamp the milliseconds that
  \<^verbatim>\<open>toISOString\<close> would print. The database is the list of the rows inserted so
  far, and the insert statement is taken to succeed.
\<close>

record log_row =
  log_transactionId :: jsstring
  log_link :: jsstring
  log_response :: payment_record
  log_ip :: jsstring
  log_userAgent :: jsstring
  log_timestamp :: nat

definition logToDatabase ::
  "environment \<Rightarrow> log_row list \<Rightarrow> jsstring \<Rightarrow> jsstring \<Rightarrow> payment_record \<Rightarrow> jsstring \<Rightarrow> jsstring
     \<Rightarrow> log_row list" where
  "logToDatabase env db tid lnk responseData ip userAgent =
     db @ [\<lparr>log_transactionId = tid, log_link = lnk, log_response = responseData,
            log_ip = ip, log_userAgent = userAgent,
            log_timestamp = date_now env + 3 * 60 * 60 * 1000\<rparr>]"

text \<open>The body of the response with status 500, and the two responses of the handler.\<close>

record failure_body =
  error :: jsstring
  detail :: jsstring
  failed_transactionId :: jsstring

datatype response = Json200 payment_record | Json500 failure_body

text \<open>Lines 134 to 140: the choice of the network and of the link.\<close>

definition cbe_link :: "jsstring \<Rightarrow> jsstring" where
  "cbe_link tid = ascii ''https://apps.cbe.com.et:100/?id='' @ tid @ ascii ''W09338067''"

definition telebirr_link :: "jsstring \<Rightarrow> jsstring" where
  "telebirr_link tid = ascii ''https://transactioninfo.ethiotelecom.et/receipt/'' @ tid"

definition route :: "jsstring \<Rightarrow> source_network \<times> jsstring" where
  "route tid =
     (if startsWith tid (ascii ''FT'') then (CBE, cbe_link tid) else (Telebirr, telebirr_link tid))"

definition resolve :: "environment \<Rightarrow> jsstring \<Rightarrow> js_error + (jsstring \<times> payment_record)" where
  "resolve env tid =
     (case route tid of
        (CBE, lnk) \<Rightarrow> map_sum id (Pair lnk) (parseFT env lnk tid)
      | (Telebirr, lnk) \<Rightarrow> map_sum id (Pair lnk) (parseTelebirr env lnk tid))"

definition getresult :: "environment \<Rightarrow> request \<Rightarrow> log_row list \<Rightarrow> response \<times> log_row list" where
  "getresult env req db =
     (let tid = params_transactionId req;
          ip = or_default (header_x_forwarded_for req)
                 (or_default (socket_remoteAddress req) (ascii ''Unknown''));
          userAgent = or_default (header_user_agent req) (ascii ''Unknown'')
      in case resolve env tid of
           Inr (lnk, result) \<Rightarrow>
             (Json200 result, logToDatabase env db tid lnk result ip userAgent)
         | Inl e \<Rightarrow>
             (Json500 \<lparr>error = ascii ''Failed to process transaction'', detail = message e,
                       failed_transactionId = tid\<rparr>, db))"

section \<open>Notions used in the statements\<close>

text \<open>No two neighbouring code units of the string are both whitespace.\<close>

fun no_adjacent_ws :: "jsstring \<Rightarrow> bool" where
  "no_adjacent_ws (c # d # cs) = (\<not> (class_s c \<and> class_s d) \<and> no_adjacent_ws (d # cs))"
| "no_adjacent_ws cs = True"

text \<open>A pattern item that consumes exactly one code unit.\<close>

fun single_item :: "regex_item \<Rightarrow> bool" where
  "single_item (Chr p) = True"
| "single_item ClassD = True"
| "single_item StarS = False"
| "single_item LazyDotGroup = False"

text \<open>The property names of the two schemas.\<close>

definition cbe_keys :: "string list" where
  "cbe_keys = [''payer'', ''payerAccount'', ''receiver'', ''receiverAccount'',
               ''paymentDateTime'', ''referenceNo'', ''reason'', ''totalAmount'']"

definition telebirr_keys :: "string list" where
  "telebirr_keys = [''paymentType'', ''payerName'', ''payerTelebirrNumber'', ''creditedPartyName'',
                    ''bankAccountNumber'', ''receiptNumber'', ''paymentDate'', ''totalAmountPaid'']"

text \<open>
  An environment in which every call has the same outcome; the examples below run the
  handler in such environments.
\<close>

definition constant_environment ::
  "js_error + nat list \<Rightarrow> js_error + jsstring \<Rightarrow> js_error + jsstring \<Rightarrow> js_error + dom_node list
     \<Rightarrow> nat \<Rightarrow> environment" where
  "constant_environment pdf_bytes pdf_text html doc now =
     \<lparr>axios_get_arraybuffer = (\<lambda>url. pdf_bytes), axios_get = (\<lambda>url. html),
      pdfParse = (\<lambda>bytes. pdf_text), cheerio_load = (\<lambda>h. doc), date_now = now\<rparr>"



text \<open>
  The first index at which a pattern matches, and the text split there: what stands before
  the first match, and the text from the first match on.
\<close>

fun first_match :: "regex_item list \<Rightarrow> jsstring \<Rightarrow> nat option" where
  "first_match items [] = (if match_here items [] [] = None then None else Some 0)"
| "first_match items (c # cs) =
     (if match_here items (c # cs) [] = None then map_option Suc (first_match items cs)
      else Some 0)"

fun split_at_match :: "regex_item list \<Rightarrow> jsstring \<Rightarrow> (jsstring \<times> jsstring) option" where
  "split_at_match items [] = (if match_here items [] [] = None then None else Some ([], []))"
| "split_at_match items (c # cs) =
     (if match_here items (c # cs) [] = None
      then map_option (\<lambda>(before, rest). (c # before, rest)) (split_at_match items cs)
      else Some ([], c # cs))"




text \<open>
  The CBE fields that are passed on as \<open>extract_field\<close> returns them, each with its label.
\<close>

definition unguarded_fields :: "(string \<times> regex_item list) list" where
  "unguarded_fields =
     [(''payer'', lit ''Payer''),
      (''receiver'', lit ''Receiver''),
      (''paymentDateTime'', lit ''Payment Date & Time''),
      (''referenceNo'', lit ''Reference No. (VAT Invoice No)''),
      (''reason'', lit ''Reason / Type of service'')]"



section \<open>Example documents\<close>






text \<open>
  A cell whose text content is the label of the payment reason, broken by
  \<^verbatim>\<open><br>\<close> before its last word.
\<close>

definition broken_label_cell :: dom_node where
  "broken_label_cell =
     Tag (ascii ''td'') []
       [TextNode ([4840, 4781, 4941, 4843, 32, 4637, 4781, 4757, 4843, 4725] @ ascii ''/Payment ''),
        Tag (ascii ''br'') [] [], TextNode (ascii ''Reason'')]"


section \<open>Properties of the routing step\<close>

lemma startsWith_iff: "startsWith s p \<longleftrightarrow> (\<exists>r. s = p @ r)"
  by (auto simp: startsWith_def prefix_def)

lemma route_FT:
  "route (ascii ''FT'' @ rest) = (CBE, cbe_link (ascii ''FT'' @ rest))"
  by (simp add: route_def startsWith_def)

lemma route_other:
  "\<not> (\<exists>rest. tid = ascii ''FT'' @ rest) \<Longrightarrow> route tid = (Telebirr, telebirr_link tid)"
  by (simp add: route_def startsWith_iff)

text \<open>
  Claim C1. A transaction identifier that starts with \<^verbatim>\<open>FT\<close> is routed to CBE, and the
  link is the fixed CBE host followed by the identifier and the fixed token
  \<^verbatim>\<open>W09338067\<close>, so the link contains the identifier, and the PDF extractor is called
  with it. Every other identifier is routed to Telebirr, and the link is the fixed Telebirr
  path followed by the identifier, with which the HTML extractor is called.
\<close>

theorem C1_route_by_prefix:
  "(tid = ascii ''FT'' @ rest \<longrightarrow>
      route tid = (CBE, ascii ''https://apps.cbe.com.et:100/?id='' @ tid @ ascii ''W09338067'')
      \<and> sublist tid (snd (route tid))
      \<and> resolve env tid = map_sum id (Pair (snd (route tid))) (parseFT env (snd (route tid)) tid))
   \<and> (\<not> (\<exists>r. tid = ascii ''FT'' @ r) \<longrightarrow>
      route tid = (Telebirr, ascii ''https://transactioninfo.ethiotelecom.et/receipt/'' @ tid)
      \<and> resolve env tid =
          map_sum id (Pair (snd (route tid))) (parseTelebirr env (snd (route tid)) tid))"
proof (intro conjI impI)
  assume h: "tid = ascii ''FT'' @ rest"
  then show r: "route tid = (CBE, ascii ''https://apps.cbe.com.et:100/?id='' @ tid @ ascii ''W09338067'')"
    using route_FT [of rest] by (simp add: cbe_link_def)
  then show "sublist tid (snd (route tid))"
    by (simp add: sublist_def) blast
  from r show "resolve env tid = map_sum id (Pair (snd (route tid))) (parseFT env (snd (route tid)) tid)"
    by (simp add: resolve_def)
next
  assume h: "\<not> (\<exists>r. tid = ascii ''FT'' @ r)"
  then show r: "route tid = (Telebirr, ascii ''https://transactioninfo.ethiotelecom.et/receipt/'' @ tid)"
    using route_other [of tid] by (simp add: telebirr_link_def)
  then show "resolve env tid =
          map_sum id (Pair (snd (route tid))) (parseTelebirr env (snd (route tid)) tid)"
    by (simp add: resolve_def)
qed

lemma not_FT_Nil: "\<not> (\<exists>r. ([]::jsstring) = ascii ''FT'' @ r)"
  by (simp add: ascii_def)

lemma not_FT_ft: "\<not> (\<exists>r. ascii ''ft'' @ rest = ascii ''FT'' @ r)"
  by (simp add: ascii_def)

theorem C1_route_by_prefix_witness:
  "route (ascii ''FT25'') = (CBE, ascii ''https://apps.cbe.com.et:100/?id=FT25W09338067'')
   \<and> sublist (ascii ''FT25'') (snd (route (ascii ''FT25'')))
   \<and> route (ascii ''CK25'') = (Telebirr, ascii ''https://transactioninfo.ethiotelecom.et/receipt/CK25'')"
proof -
  have a: "ascii ''FT25'' = ascii ''FT'' @ ascii ''25''" by (simp add: ascii_def)
  have b: "\<not> (\<exists>r. ascii ''CK25'' = ascii ''FT'' @ r)" by (simp add: ascii_def)
  from C1_route_by_prefix [of "ascii ''FT25''" "ascii ''25''"] a
  have 1: "route (ascii ''FT25'') = (CBE, ascii ''https://apps.cbe.com.et:100/?id='' @ ascii ''FT25'' @ ascii ''W09338067'')"
    and 2: "sublist (ascii ''FT25'') (snd (route (ascii ''FT25'')))" by blast+
  from C1_route_by_prefix [of "ascii ''CK25''"] b
  have 3: "route (ascii ''CK25'') = (Telebirr, ascii ''https://transactioninfo.ethiotelecom.et/receipt/'' @ ascii ''CK25'')"
    by blast
  from 1 2 3 show ?thesis by (simp add: ascii_def)
qed

text \<open>
  Claim C10. The choice of the network is a total function of the identifier and compares
  the two code units of the prefix exactly: every identifier that does not start with the
  upper-case \<^verbatim>\<open>FT\<close>, among them the empty string and the identifiers that start with
  \<^verbatim>\<open>ft\<close>, \<^verbatim>\<open>Ft\<close> or \<^verbatim>\<open>fT\<close>, is routed to Telebirr with the Telebirr link;
  the routing step has no failing branch.
\<close>

theorem C10_route_total_case_sensitive:
  "(\<not> (\<exists>r. tid = ascii ''FT'' @ r) \<longrightarrow>
      route tid = (Telebirr, ascii ''https://transactioninfo.ethiotelecom.et/receipt/'' @ tid))
   \<and> route [] = (Telebirr, ascii ''https://transactioninfo.ethiotelecom.et/receipt/'')
   \<and> route (ascii ''ft'' @ rest) =
       (Telebirr, ascii ''https://transactioninfo.ethiotelecom.et/receipt/'' @ ascii ''ft'' @ rest)
   \<and> route (ascii ''Ft'' @ rest) =
       (Telebirr, ascii ''https://transactioninfo.ethiotelecom.et/receipt/'' @ ascii ''Ft'' @ rest)
   \<and> route (ascii ''fT'' @ rest) =
       (Telebirr, ascii ''https://transactioninfo.ethiotelecom.et/receipt/'' @ ascii ''fT'' @ rest)"
  by (simp add: route_def startsWith_iff telebirr_link_def) (simp add: ascii_def)

theorem C10_route_total_case_sensitive_witness:
  "route (ascii ''ft25'') = (Telebirr, ascii ''https://transactioninfo.ethiotelecom.et/receipt/ft25'')"
proof -
  have b: "\<not> (\<exists>r. ascii ''ft25'' = ascii ''FT'' @ r)" by (simp add: ascii_def)
  from C10_route_total_case_sensitive [of "ascii ''ft25''"] b
  have "route (ascii ''ft25'') = (Telebirr, ascii ''https://transactioninfo.ethiotelecom.et/receipt/'' @ ascii ''ft25'')"
    by blast
  then show ?thesis by (simp add: ascii_def)
qed

section \<open>Whitespace normalisation\<close>




lemma collapse_runs_Nil_iff: "collapse_runs s = [] \<longleftrightarrow> s = []"
  by (cases s rule: collapse_runs.cases) auto





lemma no_adjacent_ws_nth:
  "no_adjacent_ws s \<longleftrightarrow> (\<forall>i. Suc i < length s \<longrightarrow> \<not> (class_s (s ! i) \<and> class_s (s ! Suc i)))"
proof (induction s rule: no_adjacent_ws.induct)
  case (1 c d cs)
  show ?case
  proof
    assume a: "no_adjacent_ws (c # d # cs)"
    show "\<forall>i. Suc i < length (c # d # cs) \<longrightarrow> \<not> (class_s ((c # d # cs) ! i) \<and> class_s ((c # d # cs) ! Suc i))"
    proof (intro allI impI)
      fix i assume "Suc i < length (c # d # cs)"
      then show "\<not> (class_s ((c # d # cs) ! i) \<and> class_s ((c # d # cs) ! Suc i))"
        using a 1 by (cases i) auto
    qed
  next
    assume a: "\<forall>i. Suc i < length (c # d # cs) \<longrightarrow> \<not> (class_s ((c # d # cs) ! i) \<and> class_s ((c # d # cs) ! Suc i))"
    from a [rule_format, of 0] have h: "\<not> (class_s c \<and> class_s d)" by simp
    have "\<forall>i. Suc i < length (d # cs) \<longrightarrow> \<not> (class_s ((d # cs) ! i) \<and> class_s ((d # cs) ! Suc i))"
    proof (intro allI impI)
      fix i assume "Suc i < length (d # cs)"
      then show "\<not> (class_s ((d # cs) ! i) \<and> class_s ((d # cs) ! Suc i))"
        using a [rule_format, of "Suc i"] by simp
    qed
    with 1 h show "no_adjacent_ws (c # d # cs)" by simp
  qed
qed simp_all


lemma class_s_simps:
  "class_s 9" "class_s 32" "class_s 10" "class_s 13" "\<not> class_s 97" "\<not> class_s 98" "\<not> class_s 99"
  by (simp_all add: class_s_def is_white_space_def is_line_terminator_def)



lemma ex1: "normalize_text [97, 13, 10, 32, 9, 98, 10, 99] = [97, 32, 98, 32, 99]"
  by (simp add: normalize_text_def class_s_simps)

section \<open>The records of the two extractors\<close>

lemma or_default_nonempty: "d \<noteq> [] \<Longrightarrow> or_default x d \<noteq> []"
  by (cases x) auto

lemma ascii_simps: "ascii [] = []" "ascii (c # cs) = of_char c # ascii cs"
  by (simp_all add: ascii_def)

lemma parseFT_Inr:
  "parseFT env lnk tid = Inr r \<Longrightarrow>
     \<exists>bytes pdfText. axios_get_arraybuffer env lnk = Inr bytes \<and> pdfParse env bytes = Inr pdfText \<and>
       r = \<lparr>source = CBE, transactionId = tid, link = lnk,
            data = parseFT_data (normalize_text pdfText)\<rparr>"
  by (auto simp: parseFT_def split: sum.splits)

lemma parseTelebirr_Inr:
  "parseTelebirr env lnk tid = Inr r \<Longrightarrow>
     \<exists>html doc. axios_get env lnk = Inr html \<and> \<not> str_includes html sentinel \<and>
       cheerio_load env html = Inr doc \<and>
       r = \<lparr>source = Telebirr, transactionId = tid, link = lnk, data = parseTelebirr_data doc\<rparr>"
  by (auto simp: parseTelebirr_def split: sum.splits if_splits)

lemma parseFT_constant:
  "parseFT (constant_environment (Inr b) (Inr t) h d n) lnk tid =
     Inr \<lparr>source = CBE, transactionId = tid, link = lnk, data = parseFT_data (normalize_text t)\<rparr>"
  by (simp add: parseFT_def constant_environment_def)

lemma parseTelebirr_constant:
  "\<not> str_includes h sentinel \<Longrightarrow>
   parseTelebirr (constant_environment b t (Inr h) (Inr d) n) lnk tid =
     Inr \<lparr>source = Telebirr, transactionId = tid, link = lnk, data = parseTelebirr_data d\<rparr>"
  by (simp add: parseTelebirr_def constant_environment_def)

lemma empty_no_sentinel: "\<not> str_includes [] sentinel"
  by (simp add: str_includes_def sentinel_def ascii_def)

lemma parseFT_data_fields:
  "map_of (parseFT_data t) ''payer'' = Some (nullable (extract_field t (lit ''Payer'') (lit ''Account'')))"
  "map_of (parseFT_data t) ''payerAccount'' =
     Some (Str (or_default (extract_field t (lit ''Account'') (lit ''Receiver'')) (ascii ''Unknown'')))"
  "map_of (parseFT_data t) ''receiver'' = Some (nullable (extract_field t (lit ''Receiver'') (lit ''Account'')))"
  "map_of (parseFT_data t) ''receiverAccount'' =
     Some (Str (or_default (extract_field t label_masked_account (lit ''Payment Date & Time''))
                  (ascii ''1000009338067'')))"
  "map_of (parseFT_data t) ''paymentDateTime'' =
     Some (nullable (extract_field t (lit ''Payment Date & Time'') (lit ''Reference No'')))"
  "map_of (parseFT_data t) ''referenceNo'' =
     Some (nullable (extract_field t (lit ''Reference No. (VAT Invoice No)'') (lit ''Reason'')))"
  "map_of (parseFT_data t) ''reason'' =
     Some (nullable (extract_field t (lit ''Reason / Type of service'') (lit ''Transferred Amount'')))"
  "map_of (parseFT_data t) ''totalAmount'' =
     Some (Str (case extract_field t (lit ''Total amount debited from customers account'')
                       (lit ''Amount in Word'') of
                  None \<Rightarrow> ascii ''Unknown''
                | Some a \<Rightarrow> if a = [] then ascii ''Unknown'' else a @ ascii '' ETB''))"
  by (simp_all add: parseFT_data_def Let_def)

lemma parseTelebirr_data_fields:
  "map_of (parseTelebirr_data d) ''paymentType'' = Some (Str (cell_after d label_payment_reason))"
  "map_of (parseTelebirr_data d) ''payerName'' = Some (Str (cell_after d label_payer_name))"
  "map_of (parseTelebirr_data d) ''payerTelebirrNumber'' = Some (Str (cell_after d label_payer_telebirr_no))"
  "map_of (parseTelebirr_data d) ''creditedPartyName'' = Some (Str (cell_after d label_credited_party_name))"
  "map_of (parseTelebirr_data d) ''bankAccountNumber'' =
     Some (Str (if cell_after d label_bank_account_number = [] then ascii ''Not available''
                else cell_after d label_bank_account_number))"
  "map_of (parseTelebirr_data d) ''totalAmountPaid'' = Some (Str (cell_after d label_total_paid_amount))"
  "\<exists>s. map_of (parseTelebirr_data d) ''receiptNumber'' = Some (Str s)"
  "\<exists>s. map_of (parseTelebirr_data d) ''paymentDate'' = Some (Str s)"
  by (simp_all add: parseTelebirr_data_def Let_def)

lemma ascii_nonempty: "s \<noteq> [] \<Longrightarrow> ascii s \<noteq> []"
  by (simp add: ascii_def)

text \<open>
  A label of single items that matches nowhere makes the whole pattern of
  \<open>extract_field\<close> fail.
\<close>

lemma match_here_single_append:
  "list_all single_item label \<Longrightarrow> match_here label s cap = None
     \<Longrightarrow> match_here (label @ items) s cap = None"
proof (induction label arbitrary: s)
  case Nil
  then show ?case by simp
next
  case (Cons i label)
  then show ?case
    by (cases i; cases s) (auto split: if_splits)
qed

lemma regex_exec_single_append:
  "list_all single_item label \<Longrightarrow> regex_exec label s = None
     \<Longrightarrow> regex_exec (label @ items) s = None"
proof (induction s)
  case Nil
  then show ?case by (simp add: match_here_single_append)
next
  case (Cons c s)
  then show ?case
    by (auto simp: match_here_single_append split: option.splits)
qed

lemma single_lit: "list_all single_item (lit s)"
  by (simp add: lit_def list_all_iff)


lemma extract_field_absent:
  "list_all single_item label \<Longrightarrow> regex_exec label t = None
     \<Longrightarrow> extract_field t label after = None"
  by (simp add: extract_field_def regex_exec_single_append)


lemma keys_parseFT_data: "map fst (parseFT_data t) = cbe_keys"
  by (simp add: parseFT_data_def cbe_keys_def Let_def)

lemma keys_parseTelebirr_data: "map fst (parseTelebirr_data d) = telebirr_keys"
  by (simp add: parseTelebirr_data_def telebirr_keys_def Let_def)

text \<open>
  Claim C2. A record returned by the PDF extractor has the source CBE and exactly the eight
  CBE property names in its data, and a record returned by the HTML extractor has the
  source Telebirr and exactly the eight Telebirr property names, whatever the fetched
  document contained.
\<close>

theorem C2_data_keys:
  "(parseFT env lnk tid = Inr r \<longrightarrow>
      source r = CBE \<and>
      map fst (data r) = [''payer'', ''payerAccount'', ''receiver'', ''receiverAccount'',
                          ''paymentDateTime'', ''referenceNo'', ''reason'', ''totalAmount''])
   \<and> (parseTelebirr env lnk tid = Inr r' \<longrightarrow>
      source r' = Telebirr \<and>
      map fst (data r') = [''paymentType'', ''payerName'', ''payerTelebirrNumber'',
                           ''creditedPartyName'', ''bankAccountNumber'', ''receiptNumber'',
                           ''paymentDate'', ''totalAmountPaid''])"
proof (intro conjI impI)
  assume "parseFT env lnk tid = Inr r"
  from parseFT_Inr [OF this] show "source r = CBE"
    and "map fst (data r) = [''payer'', ''payerAccount'', ''receiver'', ''receiverAccount'',
                          ''paymentDateTime'', ''referenceNo'', ''reason'', ''totalAmount'']"
    using keys_parseFT_data by (auto simp: cbe_keys_def)
next
  assume "parseTelebirr env lnk tid = Inr r'"
  from parseTelebirr_Inr [OF this] show "source r' = Telebirr"
    and "map fst (data r') = [''paymentType'', ''payerName'', ''payerTelebirrNumber'',
                           ''creditedPartyName'', ''bankAccountNumber'', ''receiptNumber'',
                           ''paymentDate'', ''totalAmountPaid'']"
    using keys_parseTelebirr_data by (auto simp: telebirr_keys_def)
qed

theorem C2_data_keys_witness:
  "parseFT (constant_environment (Inr []) (Inr []) (Inr []) (Inr []) 0) [] (ascii ''FT1'') =
     Inr \<lparr>source = CBE, transactionId = ascii ''FT1'', link = [],
          data = parseFT_data (normalize_text [])\<rparr>
   \<and> map fst (parseFT_data (normalize_text [])) =
       [''payer'', ''payerAccount'', ''receiver'', ''receiverAccount'',
        ''paymentDateTime'', ''referenceNo'', ''reason'', ''totalAmount'']
   \<and> parseTelebirr (constant_environment (Inr []) (Inr []) (Inr []) (Inr []) 0) [] (ascii ''X1'') =
     Inr \<lparr>source = Telebirr, transactionId = ascii ''X1'', link = [],
          data = parseTelebirr_data []\<rparr>
   \<and> map fst (parseTelebirr_data []) =
       [''paymentType'', ''payerName'', ''payerTelebirrNumber'',
        ''creditedPartyName'', ''bankAccountNumber'', ''receiptNumber'',
        ''paymentDate'', ''totalAmountPaid'']"
proof -
  let ?env = "constant_environment (Inr []) (Inr []) (Inr []) (Inr []) 0"
  let ?r = "\<lparr>source = CBE, transactionId = ascii ''FT1'', link = [],
          data = parseFT_data (normalize_text [])\<rparr>"
  let ?r' = "\<lparr>source = Telebirr, transactionId = ascii ''X1'', link = [],
          data = parseTelebirr_data []\<rparr>"
  have a: "parseFT ?env [] (ascii ''FT1'') = Inr ?r" by (rule parseFT_constant)
  have b: "parseTelebirr ?env [] (ascii ''X1'') = Inr ?r'"
    by (rule parseTelebirr_constant [OF empty_no_sentinel])
  from C2_data_keys [of ?env "[]" "ascii ''FT1''" ?r ?r'] a
  have 1: "map fst (data ?r) = [''payer'', ''payerAccount'', ''receiver'', ''receiverAccount'',
        ''paymentDateTime'', ''referenceNo'', ''reason'', ''totalAmount'']" by blast
  from C2_data_keys [of ?env "[]" "ascii ''X1''" ?r ?r'] b
  have 2: "map fst (data ?r') = [''paymentType'', ''payerName'', ''payerTelebirrNumber'',
        ''creditedPartyName'', ''bankAccountNumber'', ''receiptNumber'',
        ''paymentDate'', ''totalAmountPaid'']" by blast
  from a b 1 2 show ?thesis by simp
qed

lemma unguarded_field_null:
  "(k, label) \<in> set unguarded_fields \<Longrightarrow> regex_exec label t = None
     \<Longrightarrow> map_of (parseFT_data t) k = Some Null"
  by (auto simp: unguarded_fields_def parseFT_data_fields extract_field_absent single_lit)

lemma unguarded_field_present:
  "(k, label) \<in> set unguarded_fields \<Longrightarrow> \<exists>v. map_of (parseFT_data t) k = Some v"
  by (auto simp: unguarded_fields_def parseFT_data_fields)

text \<open>
  Claim C3, as amended. In a record of the PDF extractor the fields payerAccount,
  receiverAccount and totalAmount always hold a non-empty string (the extracted text or
  the fallback), and the fields payer, receiver, paymentDateTime, referenceNo and reason
  are present but have no fallback: each is \<^verbatim>\<open>null\<close> when its label matches nowhere
  in the normalised text. In a record of the HTML extractor all eight fields hold a
  string, and bankAccountNumber a non-empty one.
\<close>

theorem C3_fallback_strings:
  "(parseFT env lnk tid = Inr r \<longrightarrow>
      (\<exists>a b c. a \<noteq> [] \<and> b \<noteq> [] \<and> c \<noteq> [] \<and>
         map_of (data r) ''payerAccount'' = Some (Str a) \<and>
         map_of (data r) ''receiverAccount'' = Some (Str b) \<and>
         map_of (data r) ''totalAmount'' = Some (Str c))
      \<and> (\<exists>bytes pdfText. axios_get_arraybuffer env lnk = Inr bytes \<and>
             pdfParse env bytes = Inr pdfText \<and>
             (\<forall>(k, label) \<in> set unguarded_fields.
                (\<exists>v. map_of (data r) k = Some v) \<and>
                (regex_exec label (normalize_text pdfText) = None \<longrightarrow>
                   map_of (data r) k = Some Null))))
   \<and> (parseTelebirr env lnk tid = Inr r' \<longrightarrow>
      (\<forall>k \<in> {''paymentType'', ''payerName'', ''payerTelebirrNumber'', ''creditedPartyName'',
              ''bankAccountNumber'', ''receiptNumber'', ''paymentDate'', ''totalAmountPaid''}.
            \<exists>s. map_of (data r') k = Some (Str s))
      \<and> (\<exists>b. b \<noteq> [] \<and> map_of (data r') ''bankAccountNumber'' = Some (Str b)))"
proof (intro conjI impI)
  assume "parseFT env lnk tid = Inr r"
  from parseFT_Inr [OF this] obtain bytes pdfText
    where f: "axios_get_arraybuffer env lnk = Inr bytes" "pdfParse env bytes = Inr pdfText"
      and r: "data r = parseFT_data (normalize_text pdfText)" by auto
  let ?t = "normalize_text pdfText"
  have "or_default (extract_field ?t (lit ''Account'') (lit ''Receiver'')) (ascii ''Unknown'') \<noteq> []"
    by (rule or_default_nonempty) (simp add: ascii_def)
  moreover have "or_default (extract_field ?t label_masked_account (lit ''Payment Date & Time''))
                  (ascii ''1000009338067'') \<noteq> []"
    by (rule or_default_nonempty) (simp add: ascii_def)
  moreover have "(case extract_field ?t (lit ''Total amount debited from customers account'')
                       (lit ''Amount in Word'') of
                  None \<Rightarrow> ascii ''Unknown''
                | Some a \<Rightarrow> if a = [] then ascii ''Unknown'' else a @ ascii '' ETB'') \<noteq> []"
    by (simp add: ascii_def split: option.splits)
  ultimately show "\<exists>a b c. a \<noteq> [] \<and> b \<noteq> [] \<and> c \<noteq> [] \<and>
         map_of (data r) ''payerAccount'' = Some (Str a) \<and>
         map_of (data r) ''receiverAccount'' = Some (Str b) \<and>
         map_of (data r) ''totalAmount'' = Some (Str c)"
    unfolding r parseFT_data_fields by blast
  have "\<forall>(k, label) \<in> set unguarded_fields.
          (\<exists>v. map_of (data r) k = Some v) \<and>
          (regex_exec label ?t = None \<longrightarrow> map_of (data r) k = Some Null)"
    unfolding r using unguarded_field_null [of _ _ ?t] unguarded_field_present [of _ _ ?t]
    by blast
  with f show "\<exists>bytes pdfText. axios_get_arraybuffer env lnk = Inr bytes \<and>
             pdfParse env bytes = Inr pdfText \<and>
             (\<forall>(k, label) \<in> set unguarded_fields.
                (\<exists>v. map_of (data r) k = Some v) \<and>
                (regex_exec label (normalize_text pdfText) = None \<longrightarrow>
                   map_of (data r) k = Some Null))"
    by blast
next
  assume "parseTelebirr env lnk tid = Inr r'"
  from parseTelebirr_Inr [OF this] obtain d where r: "data r' = parseTelebirr_data d" by auto
  show "\<forall>k \<in> {''paymentType'', ''payerName'', ''payerTelebirrNumber'', ''creditedPartyName'',
              ''bankAccountNumber'', ''receiptNumber'', ''paymentDate'', ''totalAmountPaid''}.
            \<exists>s. map_of (data r') k = Some (Str s)"
    unfolding r using parseTelebirr_data_fields(7,8) [of d]
    by (simp add: parseTelebirr_data_fields(1-6))
  show "\<exists>b. b \<noteq> [] \<and> map_of (data r') ''bankAccountNumber'' = Some (Str b)"
    unfolding r by (simp add: parseTelebirr_data_fields(5) ascii_def)
qed

lemma extract_field_empty_text:
  "extract_field [] (Chr p # items) after = None"
  by (simp add: extract_field_def)

lemma lit_Cons: "lit (c # cs) = Chr (of_char c) # lit cs" and lit_Nil: "lit [] = []"
  by (simp_all add: lit_def)

lemma normalize_text_Nil: "normalize_text [] = []"
  by (simp add: normalize_text_def)

text \<open>
  The claim as stated fails: for a PDF with empty text the lookup succeeds and the field
  payer of the record is \<^verbatim>\<open>null\<close>.
\<close>

theorem C3_payer_null:
  "\<not> isl (parseFT (constant_environment (Inr []) (Inr []) (Inr []) (Inr []) 0) [] (ascii ''FT1''))
   \<and> map_of (data (projr (parseFT (constant_environment (Inr []) (Inr []) (Inr []) (Inr []) 0) []
                             (ascii ''FT1'')))) ''payer'' = Some Null"
  by (simp add: parseFT_constant normalize_text_Nil parseFT_data_fields lit_Cons
        extract_field_empty_text)

theorem C3_fallback_strings_witness:
  "parseFT (constant_environment (Inr []) (Inr []) (Inr []) (Inr []) 0) [] (ascii ''FT1'') =
     Inr \<lparr>source = CBE, transactionId = ascii ''FT1'', link = [], data = parseFT_data (normalize_text [])\<rparr>
   \<and> (\<exists>a b c. a \<noteq> [] \<and> b \<noteq> [] \<and> c \<noteq> [] \<and>
         map_of (parseFT_data (normalize_text [])) ''payerAccount'' = Some (Str a) \<and>
         map_of (parseFT_data (normalize_text [])) ''receiverAccount'' = Some (Str b) \<and>
         map_of (parseFT_data (normalize_text [])) ''totalAmount'' = Some (Str c))
   \<and> regex_exec (lit ''Receiver'') (normalize_text []) = None
   \<and> map_of (parseFT_data (normalize_text [])) ''receiver'' = Some Null
   \<and> parseTelebirr (constant_environment (Inr []) (Inr []) (Inr []) (Inr []) 0) [] (ascii ''X1'') =
     Inr \<lparr>source = Telebirr, transactionId = ascii ''X1'', link = [], data = parseTelebirr_data []\<rparr>
   \<and> (\<exists>b. b \<noteq> [] \<and> map_of (parseTelebirr_data []) ''bankAccountNumber'' = Some (Str b))"
proof -
  let ?env = "constant_environment (Inr []) (Inr []) (Inr []) (Inr []) 0"
  let ?r = "\<lparr>source = CBE, transactionId = ascii ''FT1'', link = [],
          data = parseFT_data (normalize_text [])\<rparr>"
  let ?r' = "\<lparr>source = Telebirr, transactionId = ascii ''X1'', link = [],
          data = parseTelebirr_data []\<rparr>"
  have a: "parseFT ?env [] (ascii ''FT1'') = Inr ?r" by (rule parseFT_constant)
  have b: "parseTelebirr ?env [] (ascii ''X1'') = Inr ?r'"
    by (rule parseTelebirr_constant [OF empty_no_sentinel])
  have n: "regex_exec (lit ''Receiver'') (normalize_text []) = None"
    by (simp add: normalize_text_Nil lit_Cons)
  have m: "(''receiver'', lit ''Receiver'') \<in> set unguarded_fields"
    by (simp add: unguarded_fields_def)
  note cbe = C3_fallback_strings [of ?env "[]" "ascii ''FT1''" ?r ?r', THEN conjunct1, THEN mp, OF a]
  note tele = C3_fallback_strings [of ?env "[]" "ascii ''X1''" ?r ?r', THEN conjunct2, THEN mp, OF b]
  note 1 = cbe [THEN conjunct1]
  from cbe [THEN conjunct2] obtain bytes pdfText
    where p: "pdfParse ?env bytes = Inr pdfText"
      and u: "\<forall>(k, label) \<in> set unguarded_fields.
                (\<exists>v. map_of (data ?r) k = Some v) \<and>
                (regex_exec label (normalize_text pdfText) = None \<longrightarrow>
                   map_of (data ?r) k = Some Null)"
    by (elim exE conjE)
  from p have e: "pdfText = []" by (simp add: constant_environment_def)
  from bspec [OF u m]
  have "regex_exec (lit ''Receiver'') (normalize_text pdfText) = None \<longrightarrow>
          map_of (data ?r) ''receiver'' = Some Null"
    by simp
  with n e have 3: "map_of (data ?r) ''receiver'' = Some Null" by simp
  note 2 = tele [THEN conjunct2]
  from 1 have 1: "\<exists>a b c. a \<noteq> [] \<and> b \<noteq> [] \<and> c \<noteq> [] \<and>
         map_of (parseFT_data (normalize_text [])) ''payerAccount'' = Some (Str a) \<and>
         map_of (parseFT_data (normalize_text [])) ''receiverAccount'' = Some (Str b) \<and>
         map_of (parseFT_data (normalize_text [])) ''totalAmount'' = Some (Str c)"
    by simp
  from 2 have 2: "\<exists>b. b \<noteq> [] \<and> map_of (parseTelebirr_data []) ''bankAccountNumber'' = Some (Str b)"
    by simp
  from 3 have 3: "map_of (parseFT_data (normalize_text [])) ''receiver'' = Some Null"
    by simp
  show ?thesis
    by (intro conjI a b 1 2 3 n)
qed

section \<open>Anchor-pair extraction by the regular expression\<close>

subsection \<open>Labels and anchors of single items\<close>







lemma first_match_Some_0:
  "first_match items s = Some 0 \<longleftrightarrow> match_here items s [] \<noteq> None"
  by (cases s) auto

lemma first_match_Cons_None:
  "match_here items (c # cs) [] = None \<Longrightarrow>
     first_match items (c # cs) = Some k \<longleftrightarrow> (\<exists>k'. k = Suc k' \<and> first_match items cs = Some k')"
  by auto

lemma split_at_match_first_match:
  "split_at_match items s = map_option (\<lambda>k. (take k s, drop k s)) (first_match items s)"
  by (induction s) (auto simp: option.map_comp comp_def)


lemma first_match_matches:
  "first_match items s = Some k \<Longrightarrow> match_here items (drop k s) [] \<noteq> None \<and> k \<le> length s"
proof (induction s arbitrary: k)
  case Nil
  then show ?case by (simp split: if_splits)
next
  case (Cons c cs)
  then show ?case by (auto split: if_splits)
qed

lemma first_match_before:
  "first_match items s = Some k \<Longrightarrow> i < k \<Longrightarrow> match_here items (drop i s) [] = None"
proof (induction s arbitrary: k i)
  case Nil
  then show ?case by (simp split: if_splits)
next
  case (Cons c cs)
  show ?case
  proof (cases "match_here items (c # cs) [] = None")
    case False
    with Cons.prems show ?thesis by simp
  next
    case True
    with Cons.prems obtain k' where k: "k = Suc k'" "first_match items cs = Some k'" by auto
    show ?thesis
    proof (cases i)
      case 0
      with True show ?thesis by simp
    next
      case (Suc i')
      with Cons.prems k have "i' < k'" by simp
      from Cons.IH [OF k(2) this] Suc show ?thesis by simp
    qed
  qed
qed

lemma split_at_match_Some:
  assumes "split_at_match items s = Some (before, rest)"
  shows "s = before @ rest" and "match_here items rest [] \<noteq> None"
    and "i < length before \<Longrightarrow> match_here items (drop i s) [] = None"
proof -
  from assms obtain k where k: "first_match items s = Some k"
    and b: "before = take k s" and r: "rest = drop k s"
    by (auto simp: split_at_match_first_match)
  from b r show "s = before @ rest" by simp
  from first_match_matches [OF k] r show "match_here items rest [] \<noteq> None" by simp
  assume "i < length before"
  with b have "i < k" by simp
  then show "match_here items (drop i s) [] = None" by (rule first_match_before [OF k])
qed

















subsection \<open>A complete CBE receipt\<close>








section \<open>Fallbacks of the PDF extractor\<close>

subsection \<open>No anchor behind the label\<close>











subsection \<open>The three fields with a fallback\<close>







section \<open>The sentinel of the HTML extractor\<close>

text \<open>
  Claim C6. When the fetched page contains the phrase \<^verbatim>\<open>This request is not correct\<close>,
  the HTML extractor throws the error with the message
  \<^verbatim>\<open>Invalid Telebirr transaction ID\<close> and returns no record.
\<close>

theorem C6_sentinel_rejected:
  "axios_get env lnk = Inr html \<and> str_includes html (ascii ''This request is not correct'')
   \<longrightarrow> parseTelebirr env lnk tid = Inl (Error (ascii ''Invalid Telebirr transaction ID''))"
  by (simp add: parseTelebirr_def sentinel_def)

theorem C6_sentinel_rejected_witness:
  "str_includes (ascii ''<p>This request is not correct</p>'') (ascii ''This request is not correct'')
   \<and> parseTelebirr
        (constant_environment (Inr []) (Inr []) (Inr (ascii ''<p>This request is not correct</p>'')) (Inr []) 0)
        (ascii ''u'') (ascii ''X1'')
      = Inl (Error (ascii ''Invalid Telebirr transaction ID''))"
proof -
  let ?env = "constant_environment (Inr []) (Inr []) (Inr (ascii ''<p>This request is not correct</p>'')) (Inr []) 0"
  have a: "axios_get ?env (ascii ''u'') = Inr (ascii ''<p>This request is not correct</p>'')"
    by (simp add: constant_environment_def)
  have b: "str_includes (ascii ''<p>This request is not correct</p>'') (ascii ''This request is not correct'')"
    by (simp add: str_includes_def ascii_def sublist_Cons_right)
  from C6_sentinel_rejected [of ?env "ascii ''u''" "ascii ''<p>This request is not correct</p>''" "ascii ''X1''"] a b
  show ?thesis by blast
qed

section \<open>Label lookups of the HTML extractor\<close>












lemmas label_defs =
  label_payer_name_def label_payer_telebirr_no_def label_credited_party_name_def
  label_payment_reason_def label_bank_account_number_def label_total_paid_amount_def


text \<open>
  The broken label: the text content of the cell contains the label, what
  \<^verbatim>\<open>:contains\<close> reads does not, so the cell is not selected.
\<close>

lemma broken_label_not_selected:
  "str_includes (textContent broken_label_cell) label_payment_reason"
  "\<not> str_includes (getText broken_label_cell) label_payment_reason"
  "\<not> td_contains label_payment_reason broken_label_cell"
  by (simp_all add: broken_label_cell_def td_contains_def str_includes_def sublist_Cons_right
        label_defs ascii_def)








section \<open>The response and the audit log\<close>

lemma resolve_CBE:
  "route tid = (CBE, lnk) \<Longrightarrow> resolve env tid = map_sum id (Pair lnk) (parseFT env lnk tid)"
  by (simp add: resolve_def)

lemma resolve_Telebirr:
  "route tid = (Telebirr, lnk) \<Longrightarrow> resolve env tid = map_sum id (Pair lnk) (parseTelebirr env lnk tid)"
  by (simp add: resolve_def)

text \<open>
  Claim C8. When the lookup throws an error, the handler answers with status 500 and the
  body \<^verbatim>\<open>{error: "Failed to process transaction", detail, transactionId}\<close>, where
  \<^verbatim>\<open>detail\<close> is the message of the error, and leaves the log as it was; when the
  lookup returns a record, the handler answers with the record and appends one row that
  holds it. So the log grows exactly when the lookup succeeds. A failed fetch, a failed
  decoding of the PDF, the sentinel phrase and a failed parse of the page each make the
  lookup throw.
\<close>

theorem C8_failure_response_and_audit:
  "(resolve env (params_transactionId req) = Inl e \<longrightarrow>
      getresult env req db =
        (Json500 \<lparr>error = ascii ''Failed to process transaction'', detail = message e,
                  failed_transactionId = params_transactionId req\<rparr>, db))
   \<and> (resolve env (params_transactionId req) = Inr (lnk, r) \<longrightarrow>
      (\<exists>row. getresult env req db = (Json200 r, db @ [row]) \<and>
             log_transactionId row = params_transactionId req \<and> log_link row = lnk \<and>
             log_response row = r))
   \<and> (snd (getresult env req db) \<noteq> db \<longleftrightarrow> \<not> isl (resolve env (params_transactionId req)))
   \<and> (route tid = (CBE, lnk) \<and> axios_get_arraybuffer env lnk = Inl e \<longrightarrow> resolve env tid = Inl e)
   \<and> (route tid = (CBE, lnk) \<and> axios_get_arraybuffer env lnk = Inr bytes \<and> pdfParse env bytes = Inl e
        \<longrightarrow> resolve env tid = Inl e)
   \<and> (route tid = (Telebirr, lnk) \<and> axios_get env lnk = Inl e \<longrightarrow> resolve env tid = Inl e)
   \<and> (route tid = (Telebirr, lnk) \<and> axios_get env lnk = Inr html \<and> str_includes html sentinel
        \<longrightarrow> resolve env tid = Inl (Error (ascii ''Invalid Telebirr transaction ID'')))
   \<and> (route tid = (Telebirr, lnk) \<and> axios_get env lnk = Inr html \<and> \<not> str_includes html sentinel
        \<and> cheerio_load env html = Inl e \<longrightarrow> resolve env tid = Inl e)"
proof (intro conjI impI)
  assume "resolve env (params_transactionId req) = Inl e"
  then show "getresult env req db =
        (Json500 \<lparr>error = ascii ''Failed to process transaction'', detail = message e,
                  failed_transactionId = params_transactionId req\<rparr>, db)"
    by (simp add: getresult_def Let_def)
next
  assume "resolve env (params_transactionId req) = Inr (lnk, r)"
  then show "\<exists>row. getresult env req db = (Json200 r, db @ [row]) \<and>
             log_transactionId row = params_transactionId req \<and> log_link row = lnk \<and>
             log_response row = r"
    by (simp add: getresult_def Let_def logToDatabase_def)
next
  show "snd (getresult env req db) \<noteq> db \<longleftrightarrow> \<not> isl (resolve env (params_transactionId req))"
    by (cases "resolve env (params_transactionId req)")
       (auto simp: getresult_def Let_def logToDatabase_def)
qed (auto simp: resolve_def parseFT_def parseTelebirr_def)

lemma route_simps:
  "route (ascii ''FT1'') = (CBE, cbe_link (ascii ''FT1''))"
  "route (ascii ''X1'') = (Telebirr, telebirr_link (ascii ''X1''))"
  by (simp_all add: route_def startsWith_def ascii_def)

theorem C8_failure_response_and_audit_witness:
  "getresult (constant_environment (Inl (Error (ascii ''timeout''))) (Inr []) (Inr []) (Inr []) 0)
      \<lparr>params_transactionId = ascii ''FT1'', header_x_forwarded_for = None,
        socket_remoteAddress = None, header_user_agent = None\<rparr> []
    = (Json500 \<lparr>error = ascii ''Failed to process transaction'', detail = ascii ''timeout'',
                failed_transactionId = ascii ''FT1''\<rparr>, [])
   \<and> getresult (constant_environment (Inr []) (Inl (Error (ascii ''bad XRef''))) (Inr []) (Inr []) 0)
      \<lparr>params_transactionId = ascii ''FT1'', header_x_forwarded_for = None,
        socket_remoteAddress = None, header_user_agent = None\<rparr> []
    = (Json500 \<lparr>error = ascii ''Failed to process transaction'', detail = ascii ''bad XRef'',
                failed_transactionId = ascii ''FT1''\<rparr>, [])
   \<and> getresult (constant_environment (Inr []) (Inr []) (Inl (Error (ascii ''status 404''))) (Inr []) 0)
      \<lparr>params_transactionId = ascii ''X1'', header_x_forwarded_for = None,
        socket_remoteAddress = None, header_user_agent = None\<rparr> []
    = (Json500 \<lparr>error = ascii ''Failed to process transaction'', detail = ascii ''status 404'',
                failed_transactionId = ascii ''X1''\<rparr>, [])
   \<and> getresult (constant_environment (Inr []) (Inr []) (Inr sentinel) (Inr []) 0)
      \<lparr>params_transactionId = ascii ''X1'', header_x_forwarded_for = None,
        socket_remoteAddress = None, header_user_agent = None\<rparr> []
    = (Json500 \<lparr>error = ascii ''Failed to process transaction'', detail = ascii ''Invalid Telebirr transaction ID'',
                failed_transactionId = ascii ''X1''\<rparr>, [])
   \<and> getresult (constant_environment (Inr []) (Inr []) (Inr []) (Inl (Error (ascii ''no parse''))) 0)
      \<lparr>params_transactionId = ascii ''X1'', header_x_forwarded_for = None,
        socket_remoteAddress = None, header_user_agent = None\<rparr> []
    = (Json500 \<lparr>error = ascii ''Failed to process transaction'', detail = ascii ''no parse'',
                failed_transactionId = ascii ''X1''\<rparr>, [])
   \<and> length (snd (getresult (constant_environment (Inr []) (Inr []) (Inr []) (Inr []) 0)
      \<lparr>params_transactionId = ascii ''X1'', header_x_forwarded_for = None,
        socket_remoteAddress = None, header_user_agent = None\<rparr> [])) = 1"
proof -
  let ?req1 = "\<lparr>params_transactionId = ascii ''FT1'', header_x_forwarded_for = None,
        socket_remoteAddress = None, header_user_agent = None\<rparr>"
  let ?req2 = "\<lparr>params_transactionId = ascii ''X1'', header_x_forwarded_for = None,
        socket_remoteAddress = None, header_user_agent = None\<rparr>"
  let ?env1 = "constant_environment (Inl (Error (ascii ''timeout''))) (Inr []) (Inr []) (Inr []) 0"
  let ?env2 = "constant_environment (Inr []) (Inl (Error (ascii ''bad XRef''))) (Inr []) (Inr []) 0"
  let ?env3 = "constant_environment (Inr []) (Inr []) (Inl (Error (ascii ''status 404''))) (Inr []) 0"
  let ?env4 = "constant_environment (Inr []) (Inr []) (Inr sentinel) (Inr []) 0"
  let ?env5 = "constant_environment (Inr []) (Inr []) (Inr []) (Inl (Error (ascii ''no parse''))) 0"
  let ?env6 = "constant_environment (Inr []) (Inr []) (Inr []) (Inr []) 0"
  let ?r = "\<lparr>source = Telebirr, transactionId = ascii ''X1'', link = telebirr_link (ascii ''X1''),
            data = parseTelebirr_data []\<rparr>"
  note C = C8_failure_response_and_audit
  have f1: "axios_get_arraybuffer ?env1 (cbe_link (ascii ''FT1'')) = Inl (Error (ascii ''timeout''))"
    by (simp add: constant_environment_def)
  from C [where env = ?env1 and tid = "ascii ''FT1''" and lnk = "cbe_link (ascii ''FT1'')"
            and e = "Error (ascii ''timeout'')"] route_simps(1) f1
  have "resolve ?env1 (ascii ''FT1'') = Inl (Error (ascii ''timeout''))"
    by blast
  then have "resolve ?env1 (params_transactionId ?req1) = Inl (Error (ascii ''timeout''))" by simp
  with C [where env = ?env1 and req = ?req1 and e = "Error (ascii ''timeout'')" and db = "[]"]
  have 1: "getresult ?env1 ?req1 [] =
     (Json500 \<lparr>error = ascii ''Failed to process transaction'', detail = ascii ''timeout'',
                failed_transactionId = ascii ''FT1''\<rparr>, [])" by simp
  have f2: "axios_get_arraybuffer ?env2 (cbe_link (ascii ''FT1'')) = Inr []"
    and p2: "pdfParse ?env2 [] = Inl (Error (ascii ''bad XRef''))"
    by (simp_all add: constant_environment_def)
  from C [where env = ?env2 and tid = "ascii ''FT1''" and lnk = "cbe_link (ascii ''FT1'')"
            and e = "Error (ascii ''bad XRef'')" and bytes = "[]"] route_simps(1) f2 p2
  have "resolve ?env2 (ascii ''FT1'') = Inl (Error (ascii ''bad XRef''))"
    by blast
  then have "resolve ?env2 (params_transactionId ?req1) = Inl (Error (ascii ''bad XRef''))" by simp
  with C [where env = ?env2 and req = ?req1 and e = "Error (ascii ''bad XRef'')" and db = "[]"]
  have 2: "getresult ?env2 ?req1 [] =
     (Json500 \<lparr>error = ascii ''Failed to process transaction'', detail = ascii ''bad XRef'',
                failed_transactionId = ascii ''FT1''\<rparr>, [])" by simp
  have f3: "axios_get ?env3 (telebirr_link (ascii ''X1'')) = Inl (Error (ascii ''status 404''))"
    by (simp add: constant_environment_def)
  from C [where env = ?env3 and tid = "ascii ''X1''" and lnk = "telebirr_link (ascii ''X1'')"
            and e = "Error (ascii ''status 404'')"] route_simps(2) f3
  have "resolve ?env3 (ascii ''X1'') = Inl (Error (ascii ''status 404''))"
    by blast
  then have "resolve ?env3 (params_transactionId ?req2) = Inl (Error (ascii ''status 404''))" by simp
  with C [where env = ?env3 and req = ?req2 and e = "Error (ascii ''status 404'')" and db = "[]"]
  have 3: "getresult ?env3 ?req2 [] =
     (Json500 \<lparr>error = ascii ''Failed to process transaction'', detail = ascii ''status 404'',
                failed_transactionId = ascii ''X1''\<rparr>, [])" by simp
  have f4: "axios_get ?env4 (telebirr_link (ascii ''X1'')) = Inr sentinel"
    by (simp add: constant_environment_def)
  have s4: "str_includes sentinel sentinel" by (simp add: str_includes_def)
  from C [where env = ?env4 and tid = "ascii ''X1''" and lnk = "telebirr_link (ascii ''X1'')"
            and html = sentinel] route_simps(2) f4 s4
  have "resolve ?env4 (ascii ''X1'') = Inl (Error (ascii ''Invalid Telebirr transaction ID''))"
    by blast
  then have "resolve ?env4 (params_transactionId ?req2)
               = Inl (Error (ascii ''Invalid Telebirr transaction ID''))" by simp
  with C [where env = ?env4 and req = ?req2
            and e = "Error (ascii ''Invalid Telebirr transaction ID'')" and db = "[]"]
  have 4: "getresult ?env4 ?req2 [] =
     (Json500 \<lparr>error = ascii ''Failed to process transaction'',
                detail = ascii ''Invalid Telebirr transaction ID'',
                failed_transactionId = ascii ''X1''\<rparr>, [])" by simp
  have f5: "axios_get ?env5 (telebirr_link (ascii ''X1'')) = Inr []"
    and l5: "cheerio_load ?env5 [] = Inl (Error (ascii ''no parse''))"
    by (simp_all add: constant_environment_def)
  from C [where env = ?env5 and tid = "ascii ''X1''" and lnk = "telebirr_link (ascii ''X1'')"
            and e = "Error (ascii ''no parse'')" and html = "[]"] route_simps(2) f5 l5
       empty_no_sentinel
  have "resolve ?env5 (ascii ''X1'') = Inl (Error (ascii ''no parse''))"
    by blast
  then have "resolve ?env5 (params_transactionId ?req2) = Inl (Error (ascii ''no parse''))" by simp
  with C [where env = ?env5 and req = ?req2 and e = "Error (ascii ''no parse'')" and db = "[]"]
  have 5: "getresult ?env5 ?req2 [] =
     (Json500 \<lparr>error = ascii ''Failed to process transaction'', detail = ascii ''no parse'',
                failed_transactionId = ascii ''X1''\<rparr>, [])" by simp
  have "resolve ?env6 (ascii ''X1'') = Inr (telebirr_link (ascii ''X1''), ?r)"
    by (simp add: resolve_Telebirr [OF route_simps(2)] parseTelebirr_constant [OF empty_no_sentinel])
  then have "resolve ?env6 (params_transactionId ?req2) = Inr (telebirr_link (ascii ''X1''), ?r)"
    by simp
  with C [where env = ?env6 and req = ?req2 and lnk = "telebirr_link (ascii ''X1'')" and r = ?r
            and db = "[]"]
  obtain row where "getresult ?env6 ?req2 [] = (Json200 ?r, [] @ [row])" by blast
  then have 6: "length (snd (getresult ?env6 ?req2 [])) = 1" by simp
  from 1 2 3 4 5 6 show ?thesis by blast
qed

end
